theory Spec2Isabelle
  imports Complex_Main "HOL-Library.Product_Lexorder" "HOL-Library.Multiset"
begin

section \<open>Energy tracker: the meter application\<close>

text \<open>
  A shallow embedding of the Django application \<^verbatim>\<open>meter\<close>:
  \<^verbatim>\<open>models.py\<close> (two tables), \<^verbatim>\<open>forms.py\<close> (two model forms),
  \<^verbatim>\<open>views.py\<close> (the views \<^verbatim>\<open>input_data\<close> and \<^verbatim>\<open>dashboard\<close>) and
  \<^verbatim>\<open>urls.py\<close>.

  The views are written against Django and matplotlib. What those libraries do is not
  code of the application, so the model takes it as a parameter, the record
  \<open>django\<close> below: how a form field decodes the text of a submission, which integers
  the database backend stores, and which image the plotting library draws. Every theorem
  is proved for all such parameters. A reference instance (\<open>ref_django\<close>, the canonical
  formats an HTML date or number input submits) evaluates the scenarios.

  Numbers: \<^verbatim>\<open>models.FloatField\<close> holds a Python float. The form field refuses
  \<^verbatim>\<open>nan\<close> and the infinities, so every stored value is a finite number; it is
  modelled as a \<open>real\<close>, and the product \<^verbatim>\<open>kwh_used * price_per_kwh\<close> as the exact
  product (the rounding of the floating-point product is not modelled).
  \<^verbatim>\<open>models.IntegerField\<close> holds a Python int, an \<open>int\<close> here.
\<close>

subsection \<open>models.py\<close>

text \<open>
  \<^verbatim>\<open>datetime.date\<close>: year, month and day; dates compare by year, then month, then day,
  which is the lexicographic order of the triple.
\<close>

type_synonym datetime_date = "nat \<times> nat \<times> nat"

text \<open>
  A model instance is a row of its table. Django adds the primary key \<^verbatim>\<open>id\<close> to
  every model; the other fields are the declared ones.
\<close>

record MeterReading =
  reading_id :: nat
  date :: datetime_date
  kwh_used :: real

record Tariff =
  tariff_id :: nat
  price_per_kwh :: int

text \<open>The record store: the two tables, each a list of rows in the order of their insertion.\<close>

record database =
  meter_meterreading :: "MeterReading list"
  meter_tariff :: "Tariff list"

definition empty_database :: database where
  "empty_database = \<lparr>meter_meterreading = [], meter_tariff = []\<rparr>"

subsection \<open>The libraries the application is written against\<close>

record 'img django =
  date_to_python :: "string \<Rightarrow> datetime_date option"
    \<comment> \<open>\<^verbatim>\<open>forms.DateField.to_python\<close> on a non-empty text; \<open>None\<close> when no input format fits\<close>
  float_to_python :: "string \<Rightarrow> real option"
    \<comment> \<open>\<^verbatim>\<open>forms.FloatField\<close>: \<^verbatim>\<open>float(text)\<close>; \<open>None\<close> on \<^verbatim>\<open>ValueError\<close> or a value that is not finite\<close>
  int_to_python :: "string \<Rightarrow> int option"
    \<comment> \<open>\<^verbatim>\<open>forms.IntegerField.to_python\<close>: \<^verbatim>\<open>int(text)\<close>; \<open>None\<close> on \<^verbatim>\<open>ValueError\<close>\<close>
  integer_field_range :: "int option \<times> int option"
    \<comment> \<open>\<^verbatim>\<open>connection.ops.integer_field_range('IntegerField')\<close>: the bounds the model field validates\<close>
  savefig :: "datetime_date list \<Rightarrow> real list \<Rightarrow> 'img"
    \<comment> \<open>matplotlib: the line plot of the two sequences, saved as PNG and base-64 encoded;
      \<open>'img\<close> is the type of the encoded image\<close>

subsubsection \<open>The ORM\<close>

text \<open>
  \<^verbatim>\<open>Model.save()\<close> of a new instance inserts a row whose key the database assigns:
  one more than the largest key of the table (SQLite's rowid rule; 1 in an empty table).
\<close>

definition next_pk :: "nat list \<Rightarrow> nat" where
  "next_pk pks = Suc (fold max pks 0)"

definition insert_reading :: "datetime_date \<Rightarrow> real \<Rightarrow> database \<Rightarrow> database" where
  "insert_reading d k db =
     db\<lparr>meter_meterreading := meter_meterreading db @
          [\<lparr>reading_id = next_pk (map reading_id (meter_meterreading db)), date = d, kwh_used = k\<rparr>]\<rparr>"

definition insert_tariff :: "int \<Rightarrow> database \<Rightarrow> database" where
  "insert_tariff p db =
     db\<lparr>meter_tariff := meter_tariff db @
          [\<lparr>tariff_id = next_pk (map tariff_id (meter_tariff db)), price_per_kwh = p\<rparr>]\<rparr>"

text \<open>
  \<^verbatim>\<open>MeterReading.objects.all().order_by('date')\<close>: the rows by ascending date. SQL leaves
  the order of rows with equal dates open; the model keeps them in insertion order.
\<close>

definition order_by_date :: "MeterReading list \<Rightarrow> MeterReading list" where
  "order_by_date rows = sort_key date rows"

text \<open>
  \<^verbatim>\<open>Tariff.objects.last()\<close>: a query set with no ordering is ordered by \<^verbatim>\<open>-pk\<close>, and
  its first row is returned, \<^verbatim>\<open>None\<close> when there is none.
\<close>

definition objects_last :: "Tariff list \<Rightarrow> Tariff option" where
  "objects_last rows = (case rev (sort_key tariff_id rows) of [] \<Rightarrow> None | t # _ \<Rightarrow> Some t)"

subsubsection \<open>Form fields\<close>

type_synonym querydict = "string \<rightharpoonup> string"

datatype validation_error = Required | Invalid | MinValue | MaxValue

text \<open>
  \<^verbatim>\<open>Field.clean\<close> of a required field: a missing or empty value is refused as
  \<^verbatim>\<open>required\<close>, a text the field cannot decode as \<^verbatim>\<open>invalid\<close>.
\<close>

definition field_clean ::
  "(string \<Rightarrow> 'a option) \<Rightarrow> querydict \<Rightarrow> string \<Rightarrow> validation_error + 'a" where
  "field_clean to_python post name =
     (case post name of
        None \<Rightarrow> Inl Required
      | Some s \<Rightarrow>
          if s = [] then Inl Required
          else (case to_python s of None \<Rightarrow> Inl Invalid | Some v \<Rightarrow> Inr v))"

text \<open>
  The validators of \<^verbatim>\<open>models.IntegerField\<close>, run when a model form validates its
  instance: the bounds of the database backend, where it has them.
\<close>

definition integer_validators :: "'img django \<Rightarrow> int \<Rightarrow> validation_error + int" where
  "integer_validators dj n =
     (case integer_field_range dj of (lo, hi) \<Rightarrow>
        if (case lo of None \<Rightarrow> False | Some l \<Rightarrow> n < l) then Inl MinValue
        else if (case hi of None \<Rightarrow> False | Some h \<Rightarrow> h < n) then Inl MaxValue
        else Inr n)"

subsection \<open>forms.py\<close>

text \<open>
  A form: its fields as declared (name, widget class, widget attributes) and the data it
  is bound to (\<open>None\<close> for an unbound, blank form). The widget attributes are what the
  template renders into the HTML input; validation does not read them.
\<close>

record widget =
  widget_class :: string
  attrs :: "(string \<times> string) list"

record form =
  base_fields :: "(string \<times> widget) list"
  data :: "querydict option"

definition MeterReadingForm :: "querydict option \<Rightarrow> form" where
  "MeterReadingForm d =
     \<lparr>base_fields =
        [(''date'', \<lparr>widget_class = ''DateInput'',
                    attrs = [(''type'', ''date''), (''class'', ''form-control'')]\<rparr>),
         (''kwh_used'', \<lparr>widget_class = ''NumberInput'', attrs = []\<rparr>)],
      data = d\<rparr>"

definition TariffForm :: "querydict option \<Rightarrow> form" where
  "TariffForm d =
     \<lparr>base_fields =
        [(''price_per_kwh'', \<lparr>widget_class = ''NumberInput'',
                    attrs = [(''class'', ''form-control''), (''min'', ''0''), (''step'', ''1'')]\<rparr>)],
      data = d\<rparr>"

text \<open>The cleaning of each form: one result per field, an error or the decoded value.\<close>

definition meter_full_clean ::
  "'img django \<Rightarrow> querydict \<Rightarrow> (validation_error + datetime_date) \<times> (validation_error + real)" where
  "meter_full_clean dj post =
     (field_clean (date_to_python dj) post ''date'',
      field_clean (float_to_python dj) post ''kwh_used'')"

definition tariff_full_clean :: "'img django \<Rightarrow> querydict \<Rightarrow> validation_error + int" where
  "tariff_full_clean dj post =
     (case field_clean (int_to_python dj) post ''price_per_kwh'' of
        Inl e \<Rightarrow> Inl e
      | Inr n \<Rightarrow> integer_validators dj n)"

text \<open>\<^verbatim>\<open>form.is_valid()\<close>: the form is bound and no field has an error.\<close>

definition meter_is_valid :: "'img django \<Rightarrow> form \<Rightarrow> bool" where
  "meter_is_valid dj f =
     (case data f of
        None \<Rightarrow> False
      | Some post \<Rightarrow>
          (case meter_full_clean dj post of (Inr d, Inr k) \<Rightarrow> True | _ \<Rightarrow> False))"

definition tariff_is_valid :: "'img django \<Rightarrow> form \<Rightarrow> bool" where
  "tariff_is_valid dj f =
     (case data f of
        None \<Rightarrow> False
      | Some post \<Rightarrow> (case tariff_full_clean dj post of Inr n \<Rightarrow> True | Inl e \<Rightarrow> False))"

text \<open>
  \<^verbatim>\<open>form.save()\<close>: raises \<^verbatim>\<open>ValueError\<close> when the form has errors ("the data didn't
  validate"), and otherwise inserts the instance built from the cleaned data.
\<close>

datatype exn = ValueError | Http404

definition meter_save :: "'img django \<Rightarrow> form \<Rightarrow> database \<Rightarrow> exn + database" where
  "meter_save dj f db =
     (case data f of
        None \<Rightarrow> Inl ValueError
      | Some post \<Rightarrow>
          (case meter_full_clean dj post of
             (Inr d, Inr k) \<Rightarrow> Inr (insert_reading d k db)
           | _ \<Rightarrow> Inl ValueError))"

definition tariff_save :: "'img django \<Rightarrow> form \<Rightarrow> database \<Rightarrow> exn + database" where
  "tariff_save dj f db =
     (case data f of
        None \<Rightarrow> Inl ValueError
      | Some post \<Rightarrow>
          (case tariff_full_clean dj post of
             Inr n \<Rightarrow> Inr (insert_tariff n db)
           | Inl e \<Rightarrow> Inl ValueError))"

subsection \<open>views.py\<close>

record request =
  path :: string
  http_method :: string
  POST :: querydict

text \<open>
  What a view returns: a template rendered with a context, or a redirect to a named URL.
  The three contexts are the three dictionaries the views build.
\<close>

datatype 'img template_context =
    InputContext form form
  | ErrorContext string
  | ChartContext 'img "MeterReading list" Tariff

datatype 'img response = render string "'img template_context" | redirect string

text \<open>
  \<^verbatim>\<open>input_data\<close>. A view is a function of the request and the database to the response
  and the database it leaves; an exception that escapes the view is the \<open>Inl\<close> result.
\<close>

definition input_data :: "'img django \<Rightarrow> request \<Rightarrow> database \<Rightarrow> exn + ('img response \<times> database)" where
  "input_data dj request db =
     (if http_method request = ''POST'' then
        let meter_form = MeterReadingForm (Some (POST request));
            tariff_form = TariffForm (Some (POST request))
        in
          (case (if meter_is_valid dj meter_form then meter_save dj meter_form db else Inr db) of
             Inl e \<Rightarrow> Inl e
           | Inr db1 \<Rightarrow>
               (case (if tariff_is_valid dj tariff_form then tariff_save dj tariff_form db1
                      else Inr db1) of
                  Inl e \<Rightarrow> Inl e
                | Inr db2 \<Rightarrow> Inr (redirect ''dashboard'', db2)))
      else
        let meter_form = MeterReadingForm None;
            tariff_form = TariffForm None
        in Inr (render ''input.html'' (InputContext meter_form tariff_form), db))"

text \<open>
  The three list comprehensions of \<^verbatim>\<open>dashboard\<close>: the dates, the kWh values and the
  costs of the readings, in the order of the readings.
\<close>

definition series ::
  "MeterReading list \<Rightarrow> Tariff \<Rightarrow> datetime_date list \<times> real list \<times> real list" where
  "series readings tariff =
     (map date readings,
      map kwh_used readings,
      map (\<lambda>reading. kwh_used reading * real_of_int (price_per_kwh tariff)) readings)"

definition dashboard :: "'img django \<Rightarrow> request \<Rightarrow> database \<Rightarrow> 'img response \<times> database" where
  "dashboard dj request db =
     (let readings = order_by_date (meter_meterreading db);
          tariff = objects_last (meter_tariff db)
      in
        (case tariff of
           None \<Rightarrow> (render ''dashboard.html'' (ErrorContext ''No data available.''), db)
         | Some t \<Rightarrow>
             if readings = [] then
               (render ''dashboard.html'' (ErrorContext ''No data available.''), db)
             else
               (case series readings t of (dates, kwh, costs) \<Rightarrow>
                  let encoded = savefig dj dates costs
                  in (render ''dashboard.html'' (ChartContext encoded readings t), db))))"

subsection \<open>urls.py\<close>

definition urlpatterns :: "'img django \<Rightarrow> request \<Rightarrow> database \<Rightarrow> exn + ('img response \<times> database)" where
  "urlpatterns dj request db =
     (if path request = '''' then input_data dj request db
      else if path request = ''dashboard/'' then Inr (dashboard dj request db)
      else Inl Http404)"

text \<open>The states of the store the application can reach from the empty store.\<close>

inductive reachable :: "'img django \<Rightarrow> database \<Rightarrow> bool" for dj :: "'img django" where
  initial: "reachable dj empty_database"
| served: "reachable dj db \<Longrightarrow> urlpatterns dj request db = Inr (resp, db') \<Longrightarrow> reachable dj db'"

subsection \<open>A reference instance of the libraries\<close>

text \<open>
  Decoders for the canonical texts a browser submits: a decimal numeral with an optional
  minus sign, a decimal fraction, and \<^verbatim>\<open>YYYY-MM-DD\<close>. Django's fields accept these
  texts with these values (and further formats). The fraction decoder returns the number
  the text denotes; \<^verbatim>\<open>float\<close> would round it to the nearest double, which is the same
  number for the texts used below. The backend is SQLite's 64-bit range, and the image
  of a plot is taken to be the list of the points plotted.
\<close>

definition digit_value :: "char \<Rightarrow> nat option" where
  "digit_value c =
     (let n = (of_char c :: nat) in if 48 \<le> n \<and> n \<le> 57 then Some (n - 48) else None)"

fun decimal_from :: "nat \<Rightarrow> string \<Rightarrow> nat option" where
  "decimal_from n [] = Some n"
| "decimal_from n (c # cs) =
     (case digit_value c of None \<Rightarrow> None | Some d \<Rightarrow> decimal_from (10 * n + d) cs)"

definition decimal :: "string \<Rightarrow> nat option" where
  "decimal s = (if s = [] then None else decimal_from 0 s)"

definition ref_int :: "string \<Rightarrow> int option" where
  "ref_int s =
     (case s of
        [] \<Rightarrow> None
      | c # cs \<Rightarrow>
          if c = CHR ''-'' then map_option (\<lambda>n. - int n) (decimal cs)
          else map_option int (decimal s))"

definition ref_float :: "string \<Rightarrow> real option" where
  "ref_float s =
     (let negative = (case s of [] \<Rightarrow> False | c # cs \<Rightarrow> c = CHR ''-'');
          body = (if negative then tl s else s);
          whole = takeWhile (\<lambda>c. c \<noteq> CHR ''.'') body;
          rest = dropWhile (\<lambda>c. c \<noteq> CHR ''.'') body;
          sign = (if negative then - 1 else 1 :: real)
      in
        (case decimal whole of
           None \<Rightarrow> None
         | Some w \<Rightarrow>
             (case rest of
                [] \<Rightarrow> Some (sign * real w)
              | dot # places \<Rightarrow>
                  (case decimal places of
                     None \<Rightarrow> None
                   | Some f \<Rightarrow> Some (sign * (real w + real f / 10 ^ length places))))))"

definition is_leap :: "nat \<Rightarrow> bool" where
  "is_leap y = (if y mod 100 = 0 then y mod 400 = 0 else y mod 4 = 0)"

definition days_in_month :: "nat \<Rightarrow> nat \<Rightarrow> nat" where
  "days_in_month y m =
     (if m = 2 then (if is_leap y then 29 else 28)
      else if m = 4 \<or> m = 6 \<or> m = 9 \<or> m = 11 then 30
      else 31)"

definition ref_date :: "string \<Rightarrow> datetime_date option" where
  "ref_date s =
     (if length s = 10 \<and> s ! 4 = CHR ''-'' \<and> s ! 7 = CHR ''-'' then
        (case (decimal (take 4 s), decimal (take 2 (drop 5 s)), decimal (drop 8 s)) of
           (Some y, Some m, Some d) \<Rightarrow>
             if 1 \<le> y \<and> 1 \<le> m \<and> m \<le> 12 \<and> 1 \<le> d \<and> d \<le> days_in_month y m
             then Some (y, m, d) else None
         | _ \<Rightarrow> None)
      else None)"

definition ref_django :: "(datetime_date \<times> real) list django" where
  "ref_django =
     \<lparr>date_to_python = ref_date,
      float_to_python = ref_float,
      int_to_python = ref_int,
      integer_field_range = (Some (- 9223372036854775808), Some 9223372036854775807),
      savefig = zip\<rparr>"

text \<open>A POST to the input page with the given form data, and a GET of either page.\<close>

definition post_request :: "(string \<times> string) list \<Rightarrow> request" where
  "post_request kvs = \<lparr>path = [], http_method = ''POST'', POST = map_of kvs\<rparr>"

definition get_request :: "string \<Rightarrow> request" where
  "get_request p = \<lparr>path = p, http_method = ''GET'', POST = Map.empty\<rparr>"

text \<open>The store a sequence of requests to the input page leaves (unchanged by one that raises).\<close>

fun submit_all :: "'img django \<Rightarrow> request list \<Rightarrow> database \<Rightarrow> database" where
  "submit_all dj [] db = db"
| "submit_all dj (r # rs) db =
     (case input_data dj r db of Inl e \<Rightarrow> submit_all dj rs db | Inr (resp, db') \<Rightarrow> submit_all dj rs db')"

section \<open>Properties\<close>

subsection \<open>Auxiliary facts\<close>

lemma input_data_POST:
  assumes "http_method request = ''POST''"
  shows "input_data dj request db =
    Inr (redirect ''dashboard'',
      (case tariff_full_clean dj (POST request) of Inr n \<Rightarrow> insert_tariff n | Inl e \<Rightarrow> id)
        ((case meter_full_clean dj (POST request) of
            (Inr d, Inr k) \<Rightarrow> insert_reading d k
          | _ \<Rightarrow> id) db))"
proof -
  obtain a b where m: "meter_full_clean dj (POST request) = (a, b)"
    by (cases "meter_full_clean dj (POST request)")
  show ?thesis
  proof (cases a)
    case (Inl e)
    then show ?thesis
      using assms m
      by (cases "tariff_full_clean dj (POST request)")
         (simp_all add: input_data_def meter_is_valid_def meter_save_def tariff_is_valid_def
            tariff_save_def MeterReadingForm_def TariffForm_def)
  next
    case (Inr d)
    then show ?thesis
      using assms m
      by (cases b; cases "tariff_full_clean dj (POST request)")
         (simp_all add: input_data_def meter_is_valid_def meter_save_def tariff_is_valid_def
            tariff_save_def MeterReadingForm_def TariffForm_def)
  qed
qed


lemma fold_max_ge:
  "a \<le> fold max pks (a::nat) \<and> (\<forall>x\<in>set pks. x \<le> fold max pks a)"
proof (induction pks arbitrary: a)
  case Nil
  show ?case by simp
next
  case (Cons p pks)
  have 1: "max p a \<le> fold max pks (max p a)" using Cons [of "max p a"] by simp
  have 2: "\<forall>x\<in>set pks. x \<le> fold max pks (max p a)" using Cons [of "max p a"] by simp
  from 1 have "a \<le> fold max pks (max p a)" and "p \<le> fold max pks (max p a)" by simp_all
  with 2 show ?case by simp
qed

lemma next_pk_fresh: "x \<in> set pks \<Longrightarrow> x < next_pk pks"
  using fold_max_ge [of 0 pks] by (simp add: next_pk_def less_Suc_eq_le)

lemma input_data_other:
  assumes "http_method request \<noteq> ''POST''"
  shows "input_data dj request db =
    Inr (render ''input.html'' (InputContext (MeterReadingForm None) (TariffForm None)), db)"
  using assms by (simp add: input_data_def Let_def)

lemma meter_tariff_insert_reading: "meter_tariff (insert_reading d k db) = meter_tariff db"
  by (simp add: insert_reading_def)

lemma meter_meterreading_insert_tariff:
  "meter_meterreading (insert_tariff n db) = meter_meterreading db"
  by (simp add: insert_tariff_def)

lemma insert_tariff_pks:
  assumes "sorted_wrt (<) (map tariff_id (meter_tariff db))"
  shows "sorted_wrt (<) (map tariff_id (meter_tariff (insert_tariff p db)))"
  using assms by (auto simp: insert_tariff_def sorted_wrt_append next_pk_fresh)

lemma input_data_tariff_pks:
  assumes "input_data dj request db = Inr (resp, db')"
    and "sorted_wrt (<) (map tariff_id (meter_tariff db))"
  shows "sorted_wrt (<) (map tariff_id (meter_tariff db'))"
proof (cases "http_method request = ''POST''")
  case True
  define db1 where "db1 = (case meter_full_clean dj (POST request) of
            (Inr d, Inr k) \<Rightarrow> insert_reading d k
          | _ \<Rightarrow> id) db"
  have "meter_tariff db1 = meter_tariff db"
    by (simp add: db1_def meter_tariff_insert_reading split: sum.splits prod.splits)
  with assms(2) have s1: "sorted_wrt (<) (map tariff_id (meter_tariff db1))" by simp
  have db': "db' = (case tariff_full_clean dj (POST request) of
      Inr n \<Rightarrow> insert_tariff n | Inl e \<Rightarrow> id) db1"
    using assms(1) input_data_POST [OF True, of dj db] by (simp add: db1_def)
  show ?thesis
  proof (cases "tariff_full_clean dj (POST request)")
    case (Inl e)
    with db' s1 show ?thesis by simp
  next
    case (Inr n)
    with db' insert_tariff_pks [OF s1, of n] show ?thesis by simp
  qed
next
  case False
  with assms(1) input_data_other [OF False, of dj db] have "db' = db" by simp
  with assms(2) show ?thesis by simp
qed

lemma snd_dashboard: "snd (dashboard dj request db) = db"
  by (simp add: dashboard_def Let_def split: option.split prod.split)

lemma dashboard_leaves_db: "dashboard dj request db = (resp, db') \<Longrightarrow> db' = db"
  using snd_dashboard [of dj request db] by simp

lemma reachable_tariff_pks:
  "reachable dj db \<Longrightarrow> sorted_wrt (<) (map tariff_id (meter_tariff db))"
proof (induction rule: reachable.induct)
  case initial
  show ?case by (simp add: empty_database_def)
next
  case (served db request resp db')
  show ?case
  proof (cases "path request = []")
    case True
    with served.hyps(2) have "input_data dj request db = Inr (resp, db')"
      by (simp add: urlpatterns_def)
    then show ?thesis using served.IH by (rule input_data_tariff_pks)
  next
    case False
    with served.hyps(2) have "dashboard dj request db = (resp, db')"
      by (simp add: urlpatterns_def split: if_splits)
    then have "db' = db" by (rule dashboard_leaves_db)
    with served.IH show ?thesis by simp
  qed
qed


lemma objects_last_None: "objects_last rows = None \<longleftrightarrow> rows = []"
proof (cases "rev (sort_key tariff_id rows)")
  case Nil
  then have "length (sort_key tariff_id rows) = 0" by simp
  then have "rows = []" by (simp only: length_sort length_0_conv)
  then show ?thesis by (simp add: objects_last_def)
next
  case (Cons t ts)
  then have "rows \<noteq> []" by auto
  with Cons show ?thesis by (simp add: objects_last_def)
qed

lemma objects_last_latest:
  assumes "sorted_wrt (<) (map tariff_id (earlier @ [t]))"
  shows "objects_last (earlier @ [t]) = Some t"
proof -
  have "sorted (map tariff_id (earlier @ [t]))"
    using assms by (rule strict_sorted_imp_sorted)
  then have "sort_key tariff_id (earlier @ [t]) = earlier @ [t]"
    by (rule sort_key_id_if_sorted)
  then show ?thesis by (simp add: objects_last_def)
qed

lemma order_by_date_Nil: "order_by_date rows = [] \<longleftrightarrow> rows = []"
  by (metis length_0_conv length_sort order_by_date_def)

lemma mset_order_by_date: "mset (order_by_date rows) = mset rows"
  by (simp add: order_by_date_def)

lemma sorted_order_by_date: "sorted (map date (order_by_date rows))"
  by (simp add: order_by_date_def)

lemma dates_of_order_by_date: "map date (order_by_date rows) = sort (map date rows)"
proof -
  have "sort (map date rows) = map date (order_by_date rows)"
    by (rule properties_for_sort) (simp_all add: order_by_date_def)
  then show ?thesis by simp
qed

lemma dashboard_chart:
  assumes "objects_last (meter_tariff db) = Some t" and "meter_meterreading db \<noteq> []"
  shows "dashboard dj request db =
    (render ''dashboard.html''
       (ChartContext
          (savefig dj (map date (order_by_date (meter_meterreading db)))
             (map (\<lambda>reading. kwh_used reading * real_of_int (price_per_kwh t))
                (order_by_date (meter_meterreading db))))
          (order_by_date (meter_meterreading db)) t), db)"
  using assms by (simp add: dashboard_def series_def order_by_date_Nil Let_def)

lemma dashboard_error:
  assumes "meter_meterreading db = [] \<or> meter_tariff db = []"
  shows "dashboard dj request db =
    (render ''dashboard.html'' (ErrorContext ''No data available.''), db)"
proof (cases "objects_last (meter_tariff db)")
  case None
  then show ?thesis by (simp add: dashboard_def Let_def)
next
  case (Some t)
  then have "meter_tariff db \<noteq> []" using objects_last_None [of "meter_tariff db"] by auto
  with assms have "order_by_date (meter_meterreading db) = []" by (simp add: order_by_date_Nil)
  with Some show ?thesis by (simp add: dashboard_def Let_def)
qed

lemma field_clean_Inr:
  assumes "field_clean to_python post name = Inr v"
  shows "\<exists>s. post name = Some s \<and> s \<noteq> [] \<and> to_python s = Some v"
  using assms by (auto simp: field_clean_def split: option.splits if_splits)

lemma field_clean_decoded:
  assumes "post name = Some s" and "s \<noteq> []" and "to_python s = Some v"
  shows "field_clean to_python post name = Inr v"
  using assms by (simp add: field_clean_def)

text \<open>
  The reference instance evaluated on the form data used below, and the stores that
  some sequences of submissions leave.
\<close>

lemma ref_clean_examples:
  "ref_date ''2024-01-01'' = Some (2024, 1, 1)"
  "ref_date ''2024-02-01'' = Some (2024, 2, 1)"
  "ref_date ''2024-03-01'' = Some (2024, 3, 1)"
  "ref_float ''10'' = Some 10"
  "ref_float ''5'' = Some 5"
  "ref_float ''2.5'' = Some (5 / 2)"
  "ref_float ''-5'' = Some (- 5)"
  "ref_float ''abc'' = None"
  "ref_int ''10'' = Some 10"
  "ref_int ''15'' = Some 15"
  "ref_int ''20'' = Some 20"
  "ref_int ''-5'' = Some (- 5)"
  "ref_int ''1.5'' = None"
  by (simp_all add: ref_date_def ref_float_def ref_int_def decimal_def digit_value_def
      days_in_month_def is_leap_def)

lemmas submit_eval = input_data_POST post_request_def meter_full_clean_def
  tariff_full_clean_def field_clean_def integer_validators_def ref_clean_examples
  ref_django_def insert_reading_def insert_tariff_def next_pk_def empty_database_def

lemmas dashboard_eval = dashboard_def series_def order_by_date_def objects_last_def
  get_request_def ref_django_def Let_def

lemma scenario_reading_then_tariff:
  "submit_all ref_django
     [post_request [(''date'', ''2024-01-01''), (''kwh_used'', ''10'')],
      post_request [(''price_per_kwh'', ''15'')]] empty_database =
   \<lparr>meter_meterreading = [\<lparr>reading_id = 1, date = (2024, 1, 1), kwh_used = 10\<rparr>],
    meter_tariff = [\<lparr>tariff_id = 1, price_per_kwh = 15\<rparr>]\<rparr>"
  by (simp add: submit_eval)

lemma scenario_two_tariffs:
  "submit_all ref_django
     [post_request [(''price_per_kwh'', ''10'')],
      post_request [(''price_per_kwh'', ''20'')],
      post_request [(''date'', ''2024-02-01''), (''kwh_used'', ''5'')]] empty_database =
   \<lparr>meter_meterreading = [\<lparr>reading_id = 1, date = (2024, 2, 1), kwh_used = 5\<rparr>],
    meter_tariff = [\<lparr>tariff_id = 1, price_per_kwh = 10\<rparr>,
                    \<lparr>tariff_id = 2, price_per_kwh = 20\<rparr>]\<rparr>"
  by (simp add: submit_eval)

lemma scenario_out_of_order:
  "submit_all ref_django
     [post_request [(''date'', ''2024-03-01''), (''kwh_used'', ''10''), (''price_per_kwh'', ''20'')],
      post_request [(''date'', ''2024-01-01''), (''kwh_used'', ''5'')],
      post_request [(''date'', ''2024-02-01''), (''kwh_used'', ''2.5'')],
      post_request [(''date'', ''2024-01-01''), (''kwh_used'', ''10'')]] empty_database =
   \<lparr>meter_meterreading =
      [\<lparr>reading_id = 1, date = (2024, 3, 1), kwh_used = 10\<rparr>,
       \<lparr>reading_id = 2, date = (2024, 1, 1), kwh_used = 5\<rparr>,
       \<lparr>reading_id = 3, date = (2024, 2, 1), kwh_used = 5 / 2\<rparr>,
       \<lparr>reading_id = 4, date = (2024, 1, 1), kwh_used = 10\<rparr>],
    meter_tariff = [\<lparr>tariff_id = 1, price_per_kwh = 20\<rparr>]\<rparr>"
  by (simp add: submit_eval)

subsection \<open>The dashboard\<close>

text \<open>
  Claim C1. With at least one reading and at least one tariff in the store, the dashboard
  takes the readings in date order and the current tariff \<open>t\<close>
  (\<^verbatim>\<open>Tariff.objects.last()\<close>), and builds three sequences, one entry per reading: the
  dates, the kWh values, and the costs \<open>kwh_used * price_per_kwh t\<close> (the stored number
  times the stored integer, nothing rescaled). The three have the length of the readings,
  entry \<open>i\<close> of each belongs to reading \<open>i\<close>, and the dates and costs are what is plotted.
\<close>

theorem dashboard_cost_series:
  assumes "meter_meterreading db \<noteq> []" and "meter_tariff db \<noteq> []"
  shows "\<exists>t. objects_last (meter_tariff db) = Some t \<and>
    (let readings = order_by_date (meter_meterreading db);
         dates = map date readings;
         kwh = map kwh_used readings;
         costs = map (\<lambda>reading. kwh_used reading * real_of_int (price_per_kwh t)) readings
     in series readings t = (dates, kwh, costs) \<and>
        dashboard dj request db =
          (render ''dashboard.html'' (ChartContext (savefig dj dates costs) readings t), db) \<and>
        mset readings = mset (meter_meterreading db) \<and>
        sorted (map date readings) \<and>
        length dates = length readings \<and> length kwh = length readings \<and>
        length costs = length readings \<and>
        (\<forall>i<length readings.
           dates ! i = date (readings ! i) \<and> kwh ! i = kwh_used (readings ! i) \<and>
           costs ! i = kwh ! i * real_of_int (price_per_kwh t)))"
proof -
  from assms(2) obtain t where t: "objects_last (meter_tariff db) = Some t"
    using objects_last_None [of "meter_tariff db"] by auto
  show ?thesis
    using t dashboard_chart [OF t assms(1), of dj request]
    by (simp add: Let_def series_def mset_order_by_date sorted_order_by_date)
qed

theorem dashboard_cost_series_witness:
  "(let db = submit_all ref_django
       [post_request [(''date'', ''2024-01-01''), (''kwh_used'', ''10'')],
        post_request [(''price_per_kwh'', ''15'')]] empty_database;
       r = \<lparr>reading_id = 1, date = (2024, 1, 1), kwh_used = 10\<rparr>;
       t = \<lparr>tariff_id = 1, price_per_kwh = 15\<rparr>
    in meter_meterreading db \<noteq> [] \<and> meter_tariff db \<noteq> [] \<and>
       objects_last (meter_tariff db) = Some t \<and>
       series (order_by_date (meter_meterreading db)) t = ([(2024, 1, 1)], [10], [150]) \<and>
       dashboard ref_django (get_request ''dashboard/'') db =
         (render ''dashboard.html'' (ChartContext [((2024, 1, 1), 150)] [r] t), db))"
proof -
  let ?db = "\<lparr>meter_meterreading = [\<lparr>reading_id = 1, date = (2024, 1, 1), kwh_used = 10\<rparr>],
    meter_tariff = [\<lparr>tariff_id = 1, price_per_kwh = 15\<rparr>]\<rparr>"
  have ne1: "meter_meterreading ?db \<noteq> []" and ne2: "meter_tariff ?db \<noteq> []"
    by simp_all
  show ?thesis
    using dashboard_cost_series [OF ne1 ne2, of ref_django "get_request ''dashboard/''"]
    unfolding scenario_reading_then_tariff Let_def
    by (simp add: dashboard_eval)
qed

text \<open>
  Claim C2. The tariff table is kept in insertion order and keys grow with every insert
  (\<open>reachable_tariff_pks\<close>: so it is in every state the application reaches). Then the
  tariff the dashboard uses is the row inserted last, whatever the earlier rows
  \<open>earlier\<close> and whatever the dates of the readings: every cost is
  \<open>kwh_used * price_per_kwh t\<close> for that last row \<open>t\<close>.
\<close>

theorem dashboard_uses_latest_tariff:
  assumes "meter_tariff db = earlier @ [t]"
    and "sorted_wrt (<) (map tariff_id (meter_tariff db))"
    and "meter_meterreading db \<noteq> []"
  shows "objects_last (meter_tariff db) = Some t \<and>
    (let readings = order_by_date (meter_meterreading db);
         costs = map (\<lambda>reading. kwh_used reading * real_of_int (price_per_kwh t)) readings
     in dashboard dj request db =
          (render ''dashboard.html''
             (ChartContext (savefig dj (map date readings) costs) readings t), db))"
proof -
  have t: "objects_last (meter_tariff db) = Some t"
    using assms(1,2) objects_last_latest [of earlier t] by simp
  show ?thesis
    using t dashboard_chart [OF t assms(3), of dj request] by (simp add: Let_def)
qed

theorem dashboard_uses_latest_tariff_witness:
  "(let db = submit_all ref_django
       [post_request [(''price_per_kwh'', ''10'')],
        post_request [(''price_per_kwh'', ''20'')],
        post_request [(''date'', ''2024-02-01''), (''kwh_used'', ''5'')]] empty_database;
       r = \<lparr>reading_id = 1, date = (2024, 2, 1), kwh_used = 5\<rparr>;
       t1 = \<lparr>tariff_id = 1, price_per_kwh = 10\<rparr>;
       t2 = \<lparr>tariff_id = 2, price_per_kwh = 20\<rparr>
    in meter_tariff db = [t1] @ [t2] \<and>
       sorted_wrt (<) (map tariff_id (meter_tariff db)) \<and>
       meter_meterreading db \<noteq> [] \<and>
       objects_last (meter_tariff db) = Some t2 \<and>
       dashboard ref_django (get_request ''dashboard/'') db =
         (render ''dashboard.html'' (ChartContext [((2024, 2, 1), 100)] [r] t2), db))"
proof -
  let ?t1 = "\<lparr>tariff_id = 1, price_per_kwh = 10\<rparr>"
  let ?t2 = "\<lparr>tariff_id = 2, price_per_kwh = 20\<rparr>"
  let ?db = "\<lparr>meter_meterreading = [\<lparr>reading_id = 1, date = (2024, 2, 1), kwh_used = 5\<rparr>],
    meter_tariff = [?t1, ?t2]\<rparr>"
  have h1: "meter_tariff ?db = [?t1] @ [?t2]"
    and h2: "sorted_wrt (<) (map tariff_id (meter_tariff ?db))"
    and h3: "meter_meterreading ?db \<noteq> []"
    by simp_all
  show ?thesis
    using h2 dashboard_uses_latest_tariff [OF h1 h2 h3, of ref_django "get_request ''dashboard/''"]
    unfolding scenario_two_tariffs Let_def
    by (simp add: order_by_date_def ref_django_def)
qed

text \<open>
  Claim C3. With no reading or no tariff the dashboard renders the context
  \<^verbatim>\<open>{'error': "No data available."}\<close>, which holds no chart; with at least one
  reading and at least one tariff it renders the chart context.
\<close>

theorem dashboard_no_data:
  "(meter_meterreading db = [] \<or> meter_tariff db = [] \<longrightarrow>
      dashboard dj request db =
        (render ''dashboard.html'' (ErrorContext ''No data available.''), db)) \<and>
   (meter_meterreading db \<noteq> [] \<and> meter_tariff db \<noteq> [] \<longrightarrow>
      (\<exists>chart readings t. dashboard dj request db =
        (render ''dashboard.html'' (ChartContext chart readings t), db)))"
proof (intro conjI impI)
  assume "meter_meterreading db = [] \<or> meter_tariff db = []"
  then show "dashboard dj request db =
        (render ''dashboard.html'' (ErrorContext ''No data available.''), db)"
    by (rule dashboard_error)
next
  assume a: "meter_meterreading db \<noteq> [] \<and> meter_tariff db \<noteq> []"
  then have "objects_last (meter_tariff db) \<noteq> None"
    by (simp only: objects_last_None simp_thms)
  then obtain t where t: "objects_last (meter_tariff db) = Some t"
    by (cases "objects_last (meter_tariff db)") simp_all
  from a have ne: "meter_meterreading db \<noteq> []" ..
  show "\<exists>chart readings t. dashboard dj request db =
        (render ''dashboard.html'' (ChartContext chart readings t), db)"
    by (intro exI) (rule dashboard_chart [OF t ne])
qed

theorem dashboard_no_data_witness:
  "(let db = submit_all ref_django
       [post_request [(''date'', ''2024-01-01''), (''kwh_used'', ''10'')],
        post_request [(''price_per_kwh'', ''15'')]] empty_database
    in (meter_meterreading empty_database = [] \<or> meter_tariff empty_database = []) \<and>
       dashboard ref_django (get_request ''dashboard/'') empty_database =
         (render ''dashboard.html'' (ErrorContext ''No data available.''), empty_database) \<and>
       (meter_meterreading db \<noteq> [] \<and> meter_tariff db \<noteq> []) \<and>
       (\<exists>chart readings t. dashboard ref_django (get_request ''dashboard/'') db =
         (render ''dashboard.html'' (ChartContext chart readings t), db)))"
  using dashboard_no_data [of empty_database ref_django "get_request ''dashboard/''"]
    dashboard_no_data [of "\<lparr>meter_meterreading =
        [\<lparr>reading_id = 1, date = (2024, 1, 1), kwh_used = 10\<rparr>],
      meter_tariff = [\<lparr>tariff_id = 1, price_per_kwh = 15\<rparr>]\<rparr>" ref_django
      "get_request ''dashboard/''"]
  unfolding scenario_reading_then_tariff Let_def
  by (simp add: empty_database_def)

text \<open>
  Claim C6. The readings the dashboard lists and plots are the stored readings (every
  one, duplicates of a date included), rearranged so that the dates ascend. The sequence
  of dates does not depend on the order of the table: any table with the same dates
  (as a multiset) gives the same sequence.
\<close>

theorem dashboard_sorted_by_date:
  assumes "meter_meterreading db \<noteq> []" and "meter_tariff db \<noteq> []"
  shows "\<exists>readings t.
     dashboard dj request db =
       (render ''dashboard.html''
          (ChartContext
             (savefig dj (map date readings)
                (map (\<lambda>reading. kwh_used reading * real_of_int (price_per_kwh t)) readings))
             readings t), db) \<and>
     sorted (map date readings) \<and>
     mset readings = mset (meter_meterreading db) \<and>
     (\<forall>rows. mset (map date rows) = mset (map date (meter_meterreading db)) \<longrightarrow>
        map date (order_by_date rows) = map date readings)"
proof -
  from assms(2) have "objects_last (meter_tariff db) \<noteq> None"
    by (simp only: objects_last_None simp_thms)
  then obtain t where t: "objects_last (meter_tariff db) = Some t"
    by (cases "objects_last (meter_tariff db)") simp_all
  have same: "\<forall>rows. mset (map date rows) = mset (map date (meter_meterreading db)) \<longrightarrow>
      map date (order_by_date rows) = map date (order_by_date (meter_meterreading db))"
  proof (intro allI impI)
    fix rows :: "MeterReading list"
    assume "mset (map date rows) = mset (map date (meter_meterreading db))"
    then have "mset (sort (map date (meter_meterreading db))) = mset (map date rows)"
      by (simp only: mset_sort)
    then have "sort (map date rows) = sort (map date (meter_meterreading db))"
      by (rule properties_for_sort) (rule sorted_sort)
    then show "map date (order_by_date rows) = map date (order_by_date (meter_meterreading db))"
      by (simp only: dates_of_order_by_date)
  qed
  show ?thesis
    by (intro exI conjI)
       (rule dashboard_chart [OF t assms(1)], rule sorted_order_by_date,
        rule mset_order_by_date, rule same)
qed

theorem dashboard_sorted_by_date_witness:
  "(let db = submit_all ref_django
       [post_request [(''date'', ''2024-03-01''), (''kwh_used'', ''10''), (''price_per_kwh'', ''20'')],
        post_request [(''date'', ''2024-01-01''), (''kwh_used'', ''5'')],
        post_request [(''date'', ''2024-02-01''), (''kwh_used'', ''2.5'')],
        post_request [(''date'', ''2024-01-01''), (''kwh_used'', ''10'')]] empty_database;
       a = \<lparr>reading_id = 1, date = (2024, 3, 1), kwh_used = 10\<rparr>;
       b = \<lparr>reading_id = 2, date = (2024, 1, 1), kwh_used = 5\<rparr>;
       c = \<lparr>reading_id = 3, date = (2024, 2, 1), kwh_used = 5 / 2\<rparr>;
       d = \<lparr>reading_id = 4, date = (2024, 1, 1), kwh_used = 10\<rparr>;
       t = \<lparr>tariff_id = 1, price_per_kwh = 20\<rparr>
    in meter_meterreading db = [a, b, c, d] \<and> meter_tariff db \<noteq> [] \<and>
       dashboard ref_django (get_request ''dashboard/'') db =
         (render ''dashboard.html''
            (ChartContext
               [((2024, 1, 1), 100), ((2024, 1, 1), 200), ((2024, 2, 1), 50), ((2024, 3, 1), 200)]
               [b, d, c, a] t), db) \<and>
       sorted (map date [b, d, c, a]))"
proof -
  let ?db = "\<lparr>meter_meterreading =
      [\<lparr>reading_id = 1, date = (2024, 3, 1), kwh_used = 10\<rparr>,
       \<lparr>reading_id = 2, date = (2024, 1, 1), kwh_used = 5\<rparr>,
       \<lparr>reading_id = 3, date = (2024, 2, 1), kwh_used = 5 / 2\<rparr>,
       \<lparr>reading_id = 4, date = (2024, 1, 1), kwh_used = 10\<rparr>],
    meter_tariff = [\<lparr>tariff_id = 1, price_per_kwh = 20\<rparr>]\<rparr>"
  have ne1: "meter_meterreading ?db \<noteq> []" and ne2: "meter_tariff ?db \<noteq> []"
    by simp_all
  from dashboard_sorted_by_date [OF ne1 ne2, of ref_django "get_request ''dashboard/''"]
  obtain readings t where
    d: "dashboard ref_django (get_request ''dashboard/'') ?db =
       (render ''dashboard.html''
          (ChartContext
             (savefig ref_django (map date readings)
                (map (\<lambda>reading. kwh_used reading * real_of_int (price_per_kwh t)) readings))
             readings t), ?db)"
    and s: "sorted (map date readings)"
    by (elim exE conjE)
  have e: "dashboard ref_django (get_request ''dashboard/'') ?db =
     (render ''dashboard.html''
        (ChartContext
           [((2024, 1, 1), 100), ((2024, 1, 1), 200), ((2024, 2, 1), 50), ((2024, 3, 1), 200)]
           [\<lparr>reading_id = 2, date = (2024, 1, 1), kwh_used = 5\<rparr>,
            \<lparr>reading_id = 4, date = (2024, 1, 1), kwh_used = 10\<rparr>,
            \<lparr>reading_id = 3, date = (2024, 2, 1), kwh_used = 5 / 2\<rparr>,
            \<lparr>reading_id = 1, date = (2024, 3, 1), kwh_used = 10\<rparr>]
           \<lparr>tariff_id = 1, price_per_kwh = 20\<rparr>), ?db)"
    by (simp add: dashboard_eval)
  from d e have "readings =
           [\<lparr>reading_id = 2, date = (2024, 1, 1), kwh_used = 5\<rparr>,
            \<lparr>reading_id = 4, date = (2024, 1, 1), kwh_used = 10\<rparr>,
            \<lparr>reading_id = 3, date = (2024, 2, 1), kwh_used = 5 / 2\<rparr>,
            \<lparr>reading_id = 1, date = (2024, 3, 1), kwh_used = 10\<rparr>]"
    by simp
  with s e show ?thesis
    unfolding scenario_out_of_order Let_def
    by simp
qed

text \<open>
  Claim C10. The dashboard leaves the store as it found it: both tables are unchanged.
\<close>

theorem dashboard_read_only: "snd (dashboard dj request db) = db"
  by (simp add: dashboard_def Let_def split: option.split prod.split)

subsection \<open>The input page\<close>

text \<open>
  Claim C4. A POST to the input page always answers with the redirect to the dashboard
  and never raises, whatever the form data. The two forms are cleaned separately: the
  reading table gains one row exactly when both fields of the reading form are clean,
  the tariff table gains one row exactly when the price field is clean, and neither
  decision looks at the other form. A form with an error is skipped and nothing of its
  errors reaches the response.
\<close>

theorem input_data_independent:
  assumes "http_method request = ''POST''"
  shows "\<exists>db'. input_data dj request db = Inr (redirect ''dashboard'', db') \<and>
     meter_meterreading db' =
       (case meter_full_clean dj (POST request) of
          (Inr d, Inr k) \<Rightarrow>
            meter_meterreading db @
              [\<lparr>reading_id = next_pk (map reading_id (meter_meterreading db)),
                date = d, kwh_used = k\<rparr>]
        | _ \<Rightarrow> meter_meterreading db) \<and>
     meter_tariff db' =
       (case tariff_full_clean dj (POST request) of
          Inr n \<Rightarrow>
            meter_tariff db @
              [\<lparr>tariff_id = next_pk (map tariff_id (meter_tariff db)), price_per_kwh = n\<rparr>]
        | Inl e \<Rightarrow> meter_tariff db)"
proof -
  define db1 where "db1 = (case meter_full_clean dj (POST request) of
            (Inr d, Inr k) \<Rightarrow> insert_reading d k
          | _ \<Rightarrow> id) db"
  define db2 where "db2 = (case tariff_full_clean dj (POST request) of
      Inr n \<Rightarrow> insert_tariff n | Inl e \<Rightarrow> id) db1"
  have 1: "input_data dj request db = Inr (redirect ''dashboard'', db2)"
    using input_data_POST [OF assms, of dj db] by (simp only: db1_def db2_def)
  have r1: "meter_meterreading db1 =
       (case meter_full_clean dj (POST request) of
          (Inr d, Inr k) \<Rightarrow>
            meter_meterreading db @
              [\<lparr>reading_id = next_pk (map reading_id (meter_meterreading db)),
                date = d, kwh_used = k\<rparr>]
        | _ \<Rightarrow> meter_meterreading db)"
    by (simp add: db1_def insert_reading_def split: prod.split sum.split)
  have t1: "meter_tariff db1 = meter_tariff db"
    by (simp add: db1_def meter_tariff_insert_reading split: prod.split sum.split)
  have 2: "meter_meterreading db2 = meter_meterreading db1"
    by (simp add: db2_def meter_meterreading_insert_tariff split: sum.split)
  have 3: "meter_tariff db2 =
       (case tariff_full_clean dj (POST request) of
          Inr n \<Rightarrow>
            meter_tariff db @
              [\<lparr>tariff_id = next_pk (map tariff_id (meter_tariff db)), price_per_kwh = n\<rparr>]
        | Inl e \<Rightarrow> meter_tariff db)"
    by (simp add: db2_def insert_tariff_def t1 split: sum.split)
  show ?thesis
    by (intro exI conjI) (rule 1, simp only: 2 r1, rule 3)
qed

theorem input_data_independent_witness:
  "(let request = post_request
       [(''date'', ''2024-01-01''), (''kwh_used'', ''abc''), (''price_per_kwh'', ''15'')]
    in http_method request = ''POST'' \<and>
       input_data ref_django request empty_database =
         Inr (redirect ''dashboard'',
           \<lparr>meter_meterreading = [],
            meter_tariff = [\<lparr>tariff_id = 1, price_per_kwh = 15\<rparr>]\<rparr>))"
proof -
  let ?request = "post_request
       [(''date'', ''2024-01-01''), (''kwh_used'', ''abc''), (''price_per_kwh'', ''15'')]"
  have h: "http_method ?request = ''POST''" by (simp add: post_request_def)
  from input_data_independent [OF h, of ref_django empty_database]
  obtain db' where 1: "input_data ref_django ?request empty_database = Inr (redirect ''dashboard'', db')"
    and 2: "meter_meterreading db' =
       (case meter_full_clean ref_django (POST ?request) of
          (Inr d, Inr k) \<Rightarrow>
            meter_meterreading empty_database @
              [\<lparr>reading_id = next_pk (map reading_id (meter_meterreading empty_database)),
                date = d, kwh_used = k\<rparr>]
        | _ \<Rightarrow> meter_meterreading empty_database)"
    and 3: "meter_tariff db' =
       (case tariff_full_clean ref_django (POST ?request) of
          Inr n \<Rightarrow>
            meter_tariff empty_database @
              [\<lparr>tariff_id = next_pk (map tariff_id (meter_tariff empty_database)),
                price_per_kwh = n\<rparr>]
        | Inl e \<Rightarrow> meter_tariff empty_database)"
    by (elim exE conjE)
  from 2 have "meter_meterreading db' = []"
    by (simp add: submit_eval)
  moreover from 3 have "meter_tariff db' = [\<lparr>tariff_id = 1, price_per_kwh = 15\<rparr>]"
    by (simp add: submit_eval)
  ultimately have "db' = \<lparr>meter_meterreading = [],
            meter_tariff = [\<lparr>tariff_id = 1, price_per_kwh = 15\<rparr>]\<rparr>"
    by (cases db') simp
  with 1 h show ?thesis by (simp only: Let_def simp_thms)
qed

text \<open>
  Claim C5. \<^verbatim>\<open>TariffForm\<close> declares \<^verbatim>\<open>'min': 0\<close> on the widget of
  \<^verbatim>\<open>price_per_kwh\<close>, which only sets an attribute of the HTML input; neither the
  form field nor the model field carries a minimum validator. So a price that does not
  decode as an integer (\<^verbatim>\<open>1.5\<close>) creates no tariff, but a negative one (\<^verbatim>\<open>-5\<close>)
  is stored and becomes the current tariff: after a reading of 10 kWh and the tariffs 15
  and then -5, the dashboard plots the cost -50.
\<close>

theorem negative_price_is_stored:
  "(let db = submit_all ref_django
       [post_request [(''date'', ''2024-01-01''), (''kwh_used'', ''10'')],
        post_request [(''price_per_kwh'', ''15'')],
        post_request [(''price_per_kwh'', ''-5'')]] empty_database;
       r = \<lparr>reading_id = 1, date = (2024, 1, 1), kwh_used = 10\<rparr>;
       t = \<lparr>tariff_id = 2, price_per_kwh = - 5\<rparr>
    in input_data ref_django (post_request [(''price_per_kwh'', ''1.5'')]) empty_database =
         Inr (redirect ''dashboard'', empty_database) \<and>
       meter_tariff db = [\<lparr>tariff_id = 1, price_per_kwh = 15\<rparr>, t] \<and>
       objects_last (meter_tariff db) = Some t \<and>
       dashboard ref_django (get_request ''dashboard/'') db =
         (render ''dashboard.html'' (ChartContext [((2024, 1, 1), - 50)] [r] t), db))"
  by (simp add: submit_eval dashboard_eval)

text \<open>
  Claim C7. A POST whose \<^verbatim>\<open>date\<close> field decodes to the date \<open>d\<close> and whose
  \<^verbatim>\<open>kwh_used\<close> field decodes to the non-negative number \<open>k\<close> appends one row to the
  reading table, under a key no earlier row has, with exactly the date \<open>d\<close> and the
  value \<open>k\<close>; the operation answers with the redirect.
\<close>

theorem valid_reading_is_stored:
  assumes "http_method request = ''POST''"
    and "POST request ''date'' = Some date_text" and "date_text \<noteq> []"
    and "date_to_python dj date_text = Some d"
    and "POST request ''kwh_used'' = Some kwh_text" and "kwh_text \<noteq> []"
    and "float_to_python dj kwh_text = Some k"
    and "0 \<le> k"
  shows "\<exists>db' r. input_data dj request db = Inr (redirect ''dashboard'', db') \<and>
     meter_meterreading db' = meter_meterreading db @ [r] \<and>
     date r = d \<and> kwh_used r = k \<and>
     reading_id r \<notin> set (map reading_id (meter_meterreading db))"
proof -
  have m: "meter_full_clean dj (POST request) = (Inr d, Inr k)"
    using assms(2-7) by (simp add: meter_full_clean_def field_clean_decoded)
  define r where "r = \<lparr>reading_id = next_pk (map reading_id (meter_meterreading db)),
    date = d, kwh_used = k\<rparr>"
  define db' where "db' = (case tariff_full_clean dj (POST request) of
      Inr n \<Rightarrow> insert_tariff n | Inl e \<Rightarrow> id) (insert_reading d k db)"
  have 1: "input_data dj request db = Inr (redirect ''dashboard'', db')"
    using input_data_POST [OF assms(1), of dj db] by (simp add: m db'_def)
  have 2: "meter_meterreading db' = meter_meterreading db @ [r]"
    by (simp add: db'_def r_def insert_reading_def meter_meterreading_insert_tariff
        split: sum.split)
  have 3: "date r = d" and 4: "kwh_used r = k"
    by (simp_all add: r_def)
  have 5: "reading_id r \<notin> set (map reading_id (meter_meterreading db))"
    using next_pk_fresh [of "reading_id r" "map reading_id (meter_meterreading db)"]
    by (auto simp: r_def)
  show ?thesis
    by (intro exI conjI) (rule 1, rule 2, rule 3, rule 4, rule 5)
qed

theorem valid_reading_is_stored_witness:
  "(let request = post_request [(''date'', ''2024-01-01''), (''kwh_used'', ''2.5'')]
    in http_method request = ''POST'' \<and>
       POST request ''date'' = Some ''2024-01-01'' \<and> ''2024-01-01'' \<noteq> [] \<and>
       date_to_python ref_django ''2024-01-01'' = Some (2024, 1, 1) \<and>
       POST request ''kwh_used'' = Some ''2.5'' \<and> ''2.5'' \<noteq> [] \<and>
       float_to_python ref_django ''2.5'' = Some (5 / 2) \<and> (0::real) \<le> 5 / 2 \<and>
       input_data ref_django request empty_database =
         Inr (redirect ''dashboard'',
           \<lparr>meter_meterreading = [\<lparr>reading_id = 1, date = (2024, 1, 1), kwh_used = 5 / 2\<rparr>],
            meter_tariff = []\<rparr>))"
proof -
  let ?request = "post_request [(''date'', ''2024-01-01''), (''kwh_used'', ''2.5'')]"
  have h1: "http_method ?request = ''POST''"
    and h2: "POST ?request ''date'' = Some ''2024-01-01''" and h3: "''2024-01-01'' \<noteq> []"
    and h4: "date_to_python ref_django ''2024-01-01'' = Some (2024, 1, 1)"
    and h5: "POST ?request ''kwh_used'' = Some ''2.5''" and h6: "''2.5'' \<noteq> []"
    and h7: "float_to_python ref_django ''2.5'' = Some (5 / 2)" and h8: "(0::real) \<le> 5 / 2"
    by (simp_all add: post_request_def ref_django_def ref_clean_examples)
  show ?thesis
    using h1 h2 h4 h5 h7
      valid_reading_is_stored [OF h1 h2 h3 h4 h5 h6 h7 h8, of empty_database]
    by (simp add: submit_eval Let_def)
qed

text \<open>
  Claim C8. Neither \<^verbatim>\<open>MeterReading.kwh_used\<close> (a plain \<^verbatim>\<open>FloatField\<close>) nor
  \<^verbatim>\<open>MeterReadingForm\<close> bounds the value, so the input page stores a negative number as
  it stores any other. What the input page does maintain: if every stored reading is
  non-negative and the submitted \<^verbatim>\<open>kwh_used\<close>, when it decodes, is non-negative, then
  every stored reading is non-negative afterwards. The sign comes from the submission,
  not from a check of the application.
\<close>

theorem kwh_sign_is_what_was_submitted:
  assumes "input_data dj request db = Inr (resp, db')"
    and "\<forall>r\<in>set (meter_meterreading db). 0 \<le> kwh_used r"
    and "\<forall>s k. POST request ''kwh_used'' = Some s \<and> float_to_python dj s = Some k
           \<longrightarrow> 0 \<le> k"
  shows "\<forall>r\<in>set (meter_meterreading db'). 0 \<le> kwh_used r"
proof (cases "http_method request = ''POST''")
  case False
  with assms(1) input_data_other [OF False, of dj db] have "db' = db" by simp
  with assms(2) show ?thesis by simp
next
  case True
  obtain a b where m: "meter_full_clean dj (POST request) = (a, b)"
    by (cases "meter_full_clean dj (POST request)")
  define db1 where "db1 = (case (a, b) of (Inr d, Inr k) \<Rightarrow> insert_reading d k | _ \<Rightarrow> id) db"
  have "db' = (case tariff_full_clean dj (POST request) of
      Inr n \<Rightarrow> insert_tariff n | Inl e \<Rightarrow> id) db1"
    using assms(1) input_data_POST [OF True, of dj db] by (simp add: m db1_def)
  then have rd: "meter_meterreading db' = meter_meterreading db1"
    by (simp add: meter_meterreading_insert_tariff split: sum.split)
  show ?thesis
  proof (cases a)
    case (Inl e)
    then have "db1 = db" by (simp add: db1_def)
    with rd assms(2) show ?thesis by simp
  next
    case d: (Inr d)
    show ?thesis
    proof (cases b)
      case (Inl e)
      with d have "db1 = db" by (simp add: db1_def)
      with rd assms(2) show ?thesis by simp
    next
      case k: (Inr k)
      from m d k have "field_clean (float_to_python dj) (POST request) ''kwh_used'' = Inr k"
        by (simp add: meter_full_clean_def)
      from field_clean_Inr [OF this] obtain s where
        "POST request ''kwh_used'' = Some s" and "float_to_python dj s = Some k"
        by auto
      with assms(3) have "0 \<le> k" by blast
      with assms(2) show ?thesis
        by (simp add: rd db1_def d k insert_reading_def)
    qed
  qed
qed

theorem kwh_sign_is_what_was_submitted_witness:
  "(let request = post_request [(''date'', ''2024-01-01''), (''kwh_used'', ''10'')];
       db' = \<lparr>meter_meterreading = [\<lparr>reading_id = 1, date = (2024, 1, 1), kwh_used = 10\<rparr>],
              meter_tariff = []\<rparr>
    in input_data ref_django request empty_database = Inr (redirect ''dashboard'', db') \<and>
       list_all (\<lambda>r. 0 \<le> kwh_used r) (meter_meterreading empty_database) \<and>
       ref_float ''10'' = Some 10 \<and>
       list_all (\<lambda>r. 0 \<le> kwh_used r) (meter_meterreading db'))"
proof -
  let ?request = "post_request [(''date'', ''2024-01-01''), (''kwh_used'', ''10'')]"
  let ?db' = "\<lparr>meter_meterreading = [\<lparr>reading_id = 1, date = (2024, 1, 1), kwh_used = 10\<rparr>],
              meter_tariff = []\<rparr>"
  have h1: "input_data ref_django ?request empty_database = Inr (redirect ''dashboard'', ?db')"
    by (simp add: submit_eval)
  have h2: "\<forall>r\<in>set (meter_meterreading empty_database). 0 \<le> kwh_used r"
    by (simp add: empty_database_def)
  have h3: "\<forall>s k. POST ?request ''kwh_used'' = Some s \<and> float_to_python ref_django s = Some k
           \<longrightarrow> 0 \<le> k"
    by (simp add: post_request_def ref_django_def ref_clean_examples)
  show ?thesis
    using h1 kwh_sign_is_what_was_submitted [OF h1 h2 h3]
    by (simp add: Let_def empty_database_def ref_clean_examples)
qed

text \<open>
  The input page on the empty store, with the date 2024-01-01 and \<^verbatim>\<open>kwh_used\<close>
  \<^verbatim>\<open>-5\<close>: the reading is stored with the value -5.
\<close>

theorem negative_reading_counterexample:
  "input_data ref_django
     (post_request [(''date'', ''2024-01-01''), (''kwh_used'', ''-5'')]) empty_database =
   Inr (redirect ''dashboard'',
     \<lparr>meter_meterreading = [\<lparr>reading_id = 1, date = (2024, 1, 1), kwh_used = - 5\<rparr>],
      meter_tariff = []\<rparr>) \<and>
   \<not> 0 \<le> kwh_used \<lparr>reading_id = 1, date = (2024, 1, 1), kwh_used = - 5\<rparr>"
  by (simp add: submit_eval)

text \<open>
  Claim C9. Any request to the input page other than a POST renders
  \<^verbatim>\<open>input.html\<close> with two unbound forms (no data in either) and leaves the store as it
  was. The response is a function of nothing in the store, so the same request on the
  resulting store gives the same response and the same store again.
\<close>

theorem blank_forms_idempotent:
  assumes "http_method request \<noteq> ''POST''"
  shows "input_data dj request db =
      Inr (render ''input.html'' (InputContext (MeterReadingForm None) (TariffForm None)), db) \<and>
    data (MeterReadingForm None) = None \<and> data (TariffForm None) = None \<and>
    (\<forall>resp db'. input_data dj request db = Inr (resp, db') \<longrightarrow>
       db' = db \<and> input_data dj request db' = Inr (resp, db'))"
proof (intro conjI allI impI)
  show 1: "input_data dj request db =
      Inr (render ''input.html'' (InputContext (MeterReadingForm None) (TariffForm None)), db)"
    using assms by (rule input_data_other)
  show "data (MeterReadingForm None) = None" by (simp add: MeterReadingForm_def)
  show "data (TariffForm None) = None" by (simp add: TariffForm_def)
  fix resp db'
  assume a: "input_data dj request db = Inr (resp, db')"
  with 1 show "db' = db" by simp
  with a show "input_data dj request db' = Inr (resp, db')" by simp
qed

theorem blank_forms_idempotent_witness:
  "http_method (get_request []) \<noteq> ''POST'' \<and>
   input_data ref_django (get_request []) empty_database =
     Inr (render ''input.html'' (InputContext (MeterReadingForm None) (TariffForm None)),
          empty_database)"
  using blank_forms_idempotent [of "get_request []" ref_django empty_database]
  by (simp add: get_request_def)

end
